theory Spec2Isabelle
  imports Main "HOL-Library.Sublist" "HOL-Library.Multiset"
begin

section \<open>File intake: the upload filter of \<open>server.js\<close>\<close>

subsection \<open>Strings of the JavaScript runtime\<close>

text \<open>
  File names and content types are modelled as \<open>string\<close>, restricted to the ASCII
  range: \<open>toLowerCase\<close> maps \<open>A\<close>..\<open>Z\<close> to \<open>a\<close>..\<open>z\<close> and leaves every other
  character alone.
\<close>

definition toLowerCase_char :: "char \<Rightarrow> char" where
  "toLowerCase_char c =
     (let n = (of_char c :: nat) in if 65 \<le> n \<and> n \<le> 90 then char_of (n + 32) else c)"

definition toLowerCase :: "string \<Rightarrow> string" where
  "toLowerCase s = map toLowerCase_char s"

text \<open>
  \<open>path.extname\<close> of Node (POSIX flavour), which \<open>server.js\<close> calls on the original
  file name: trailing slashes are ignored, the last path component is taken, and the
  extension runs from the last dot of that component to its end. The result is empty
  when the component has no dot, when its only dot is its first character, and when the
  component is \<open>..\<close>.
\<close>

definition trim_slashes :: "string \<Rightarrow> string" where
  "trim_slashes p = rev (dropWhile (\<lambda>c. c = CHR ''/'') (rev p))"

definition last_component :: "string \<Rightarrow> string" where
  "last_component p = rev (takeWhile (\<lambda>c. c \<noteq> CHR ''/'') (rev (trim_slashes p)))"

definition extname :: "string \<Rightarrow> string" where
  "extname p =
     (let part = last_component p;
          after_dot = rev (takeWhile (\<lambda>c. c \<noteq> CHR ''.'') (rev part));
          before_dot = take (length part - length after_dot - 1) part
      in if CHR ''.'' \<notin> set part then []
         else if before_dot = [] then []
         else if part = ''..'' then []
         else CHR ''.'' # after_dot)"

subsection \<open>The regular expression \<open>/jpeg|jpg|png|gif/\<close>\<close>

text \<open>
  The pattern has no anchors, so \<open>test\<close> succeeds as soon as one alternative occurs
  somewhere in the subject. \<open>regex_test\<close> scans the subject from the left and tries
  every alternative at each position.
\<close>

definition allowedTypes :: "string list" where
  "allowedTypes = [''jpeg'', ''jpg'', ''png'', ''gif'']"

fun regex_test :: "string list \<Rightarrow> string \<Rightarrow> bool" where
  "regex_test alts [] = list_ex (\<lambda>a. a = []) alts"
| "regex_test alts (c # cs) = (list_ex (\<lambda>a. prefix a (c # cs)) alts \<or> regex_test alts cs)"

subsection \<open>Errors and the filter\<close>

text \<open>
  Two classes of error reach the handlers: the plain \<open>Error\<close> of JavaScript, carrying a
  message, and multer's \<open>MulterError\<close>, carrying a code and a message.
\<close>

datatype js_error = Error string | MulterError string string

fun message :: "js_error \<Rightarrow> string" where
  "message (Error m) = m"
| "message (MulterError c m) = m"

record upload_file =
  originalname :: string
  mimetype :: string
  file_size :: nat

text \<open>
  \<open>fileFilter\<close> answers through its callback: \<open>cb(null, true)\<close> is \<open>Inr True\<close>,
  \<open>cb(new Error(...))\<close> is \<open>Inl\<close> of that error.
\<close>

definition fileFilter :: "upload_file \<Rightarrow> js_error + bool" where
  "fileFilter file =
     (let extname_ok = regex_test allowedTypes (toLowerCase (extname (originalname file)));
          mimetype_ok = regex_test allowedTypes (mimetype file)
      in if mimetype_ok \<and> extname_ok then Inr True
         else Inl (Error ''Only image files are allowed''))"

subsection \<open>Multer: \<open>upload.single("image")\<close>\<close>

text \<open>
  What lies outside the program during one request or during start-up: whether the pool
  can hand out a connection and whether the statement fails in transit, whether the disk
  write of an upload fails, the clocks, the random number, and the two conversions the
  database applies to text parameters (to \<open>BIGINT\<close> for \<open>contact\<close>, and the comparison
  of the text parameter with the integer key in \<open>WHERE id = ?\<close>).
\<close>

datatype db_fault = NoFault | ConnectFails string | ExecuteFails string

record env =
  fault :: db_fault
  disk_error :: "string option"
  current_timestamp :: nat
  date_now :: nat
  random_int :: nat
  to_bigint :: "string \<Rightarrow> int option"
  id_equals :: "string \<Rightarrow> nat \<Rightarrow> bool"

fun digits :: "nat \<Rightarrow> string" where
  "digits n =
     (if n < 10 then [char_of (48 + n)] else digits (n div 10) @ [char_of (48 + n mod 10)])"

declare digits.simps [simp del]

definition limits_fileSize :: nat where
  "limits_fileSize = 5 * 1024 * 1024"

definition storage_filename :: "env \<Rightarrow> upload_file \<Rightarrow> string" where
  "storage_filename e file =
     (let uniqueSuffix = digits (date_now e) @ ''-'' @ digits (random_int e)
      in ''school-'' @ uniqueSuffix @ extname (originalname file))"

text \<open>
  The middleware on the part sent under the field \<open>image\<close>, if any. A part with an empty
  file name is skipped as if no file had been sent. Otherwise the filter runs first, on
  the part's headers; an accepted file is then streamed to disk, where exceeding
  \<open>limits.fileSize\<close> raises the \<open>MulterError\<close> with code \<open>LIMIT_FILE_SIZE\<close>. The
  result is \<open>req.file.filename\<close> (\<open>None\<close> when \<open>req.file\<close> is undefined), or the error
  passed to \<open>next\<close>.
\<close>

definition upload_single :: "env \<Rightarrow> upload_file option \<Rightarrow> js_error + string option" where
  "upload_single e part =
     (case part of
        None \<Rightarrow> Inr None
      | Some file \<Rightarrow>
          if originalname file = [] then Inr None
          else (case fileFilter file of
                  Inl err \<Rightarrow> Inl err
                | Inr includeFile \<Rightarrow>
                    if \<not> includeFile then Inr None
                    else if file_size file > limits_fileSize
                      then Inl (MulterError ''LIMIT_FILE_SIZE'' ''File too large'')
                    else (case disk_error e of
                            Some m \<Rightarrow> Inl (Error m)
                          | None \<Rightarrow> Inr (Some (storage_filename e file)))))"

section \<open>Storage layer\<close>

record school_row =
  id_col :: nat
  name :: string
  address :: string
  city :: string
  state :: string
  contact :: int
  image_col :: "string option"
  email_id :: string
  created_at :: nat

text \<open>
  The database: the \<open>schools\<close> table (\<open>None\<close> while it does not exist) and its
  \<open>AUTO_INCREMENT\<close> counter. The server: the database behind the pool, the number of
  connections handed out and not released, the console, and whether \<open>app.listen\<close> has
  been called.
\<close>

record database =
  schools :: "school_row list option"
  auto_increment :: nat

datatype log_entry =
    TableInitialized
  | ErrorInitializing js_error
  | ErrorAdding js_error
  | ErrorFetchingSchools js_error
  | ErrorFetchingSchool js_error
  | ServerRunning

record server =
  db :: database
  checked_out :: nat
  console :: "log_entry list"
  listening :: bool

text \<open>
  \<open>mysql.createPool(dbConfig)\<close> sets no limit, so the defaults of the driver apply: at
  most \<open>connectionLimit\<close> connections, and a call to \<open>getConnection\<close> made while all
  of them are checked out waits in a queue until one is released. No other request is in
  flight while a handler runs, so nothing is released to a waiting call: it waits for
  ever and its request is never answered. \<open>served\<close> says whether the pool serves a call
  made in a state; \<open>getConnection\<close> is the outcome of a call that is served.
\<close>

definition connectionLimit :: nat where
  "connectionLimit = 10"

definition served :: "server \<Rightarrow> bool" where
  "served s \<longleftrightarrow> checked_out s < connectionLimit"

definition getConnection :: "env \<Rightarrow> server \<Rightarrow> js_error + server" where
  "getConnection e s =
     (case fault e of
        ConnectFails m \<Rightarrow> Inl (Error m)
      | _ \<Rightarrow> Inr (s\<lparr>checked_out := checked_out s + 1\<rparr>))"

definition release :: "server \<Rightarrow> server" where
  "release s = s\<lparr>checked_out := checked_out s - 1\<rparr>"

definition console_log :: "log_entry \<Rightarrow> server \<Rightarrow> server" where
  "console_log l s = s\<lparr>console := console s @ [l]\<rparr>"

subsection \<open>The four statements\<close>

definition execute_create_table :: "env \<Rightarrow> database \<Rightarrow> js_error + database" where
  "execute_create_table e d =
     (case fault e of
        ExecuteFails m \<Rightarrow> Inl (Error m)
      | _ \<Rightarrow> (case schools d of
                None \<Rightarrow> Inr (d\<lparr>schools := Some []\<rparr>)
              | Some rows \<Rightarrow> Inr d))"

text \<open>
  \<open>INSERT\<close> with the bound values \<open>[name, address, city, state, contact, image, email_id]\<close>.
  The driver refuses an \<open>undefined\<close> value before anything is sent; the server refuses a
  missing table and a \<open>contact\<close> that is no integer. The new row takes the next key and
  the current timestamp; the result is \<open>insertId\<close>.
\<close>

definition execute_insert ::
  "env \<Rightarrow> string option \<Rightarrow> string option \<Rightarrow> string option \<Rightarrow> string option \<Rightarrow>
   string option \<Rightarrow> string option \<Rightarrow> string option \<Rightarrow> database \<Rightarrow> js_error + nat \<times> database"
where
  "execute_insert e name' address' city' state' contact' image' email_id' d =
     (case (name', address', city', state', contact', email_id') of
        (Some n, Some a, Some c, Some st, Some ct, Some em) \<Rightarrow>
          (case fault e of
             ExecuteFails m \<Rightarrow> Inl (Error m)
           | _ \<Rightarrow>
             (case schools d of
                None \<Rightarrow> Inl (Error ''Table schools does not exist'')
              | Some rows \<Rightarrow>
                  (case to_bigint e ct of
                     None \<Rightarrow> Inl (Error ''Incorrect integer value for column contact'')
                   | Some k \<Rightarrow>
                       Inr (auto_increment d,
                            d\<lparr>schools := Some (rows @
                                 [\<lparr>id_col = auto_increment d, name = n, address = a, city = c,
                                   state = st, contact = k, image_col = image', email_id = em,
                                   created_at = current_timestamp e\<rparr>]),
                              auto_increment := auto_increment d + 1\<rparr>))))
      | _ \<Rightarrow> Inl (Error ''Bind parameters must not contain undefined''))"

text \<open>
  \<open>ORDER BY created_at DESC\<close>: every row, the latest first. Rows are inserted one by
  one into a list kept in descending order.
\<close>

fun insert_desc :: "school_row \<Rightarrow> school_row list \<Rightarrow> school_row list" where
  "insert_desc r [] = [r]"
| "insert_desc r (x # xs) =
     (if created_at x \<le> created_at r then r # x # xs else x # insert_desc r xs)"

fun order_by_created_at_desc :: "school_row list \<Rightarrow> school_row list" where
  "order_by_created_at_desc [] = []"
| "order_by_created_at_desc (r # rs) = insert_desc r (order_by_created_at_desc rs)"

text \<open>
  The pool is created without \<open>supportBigNumbers\<close>, so the driver hands a \<open>BIGINT\<close>
  column to JavaScript as a number, that is, as the double nearest to the stored integer
  (ties to the even significand). Doubles of magnitude \<open>2^53\<close> and above are integers,
  so the decoded value is again an \<open>int\<close>: \<open>ulp a\<close> is the distance between
  neighbouring doubles at magnitude \<open>a\<close>, and \<open>js_number\<close> rounds to a multiple of it.
  The other columns are decoded without loss.
\<close>

fun ulp :: "nat \<Rightarrow> nat" where
  "ulp a = (if a < 2 ^ 53 then 1 else 2 * ulp (a div 2))"

declare ulp.simps [simp del]

definition round_half_even :: "nat \<Rightarrow> nat \<Rightarrow> nat" where
  "round_half_even u a =
     (let q = a div u; r = a mod u
      in if 2 * r < u then q * u
         else if u < 2 * r then (q + 1) * u
         else if even q then q * u
         else (q + 1) * u)"

definition js_number :: "int \<Rightarrow> int" where
  "js_number k =
     (let a = nat \<bar>k\<bar>; m = int (round_half_even (ulp a) a)
      in if k < 0 then - m else m)"

definition decode_row :: "school_row \<Rightarrow> school_row" where
  "decode_row r = r\<lparr>contact := js_number (contact r)\<rparr>"

definition execute_select_all :: "env \<Rightarrow> database \<Rightarrow> js_error + school_row list" where
  "execute_select_all e d =
     (case fault e of
        ExecuteFails m \<Rightarrow> Inl (Error m)
      | _ \<Rightarrow> (case schools d of
                None \<Rightarrow> Inl (Error ''Table schools does not exist'')
              | Some rows \<Rightarrow> Inr (map decode_row (order_by_created_at_desc rows))))"

definition execute_select_by_id ::
  "env \<Rightarrow> string \<Rightarrow> database \<Rightarrow> js_error + school_row list"
where
  "execute_select_by_id e id' d =
     (case fault e of
        ExecuteFails m \<Rightarrow> Inl (Error m)
      | _ \<Rightarrow> (case schools d of
                None \<Rightarrow> Inl (Error ''Table schools does not exist'')
              | Some rows \<Rightarrow>
                  Inr (map decode_row (filter (\<lambda>r. id_equals e id' (id_col r)) rows))))"

section \<open>HTTP layer and record service\<close>

text \<open>
  A response is its status code and its JSON body. The bodies the program sends are
  \<open>{success: true, message, schoolId}\<close>, \<open>{success: true, schools}\<close>,
  \<open>{success: true, school}\<close> and \<open>{success: false, message}\<close> with or without the
  \<open>error\<close> text.
\<close>

datatype payload =
    SchoolAdded string nat
  | SchoolList "school_row list"
  | SingleSchool school_row
  | Failure string "string option"

fun success :: "payload \<Rightarrow> bool" where
  "success (Failure m err) = False"
| "success p = True"

record response =
  status :: nat
  payload :: payload

text \<open>
  A create request is its form fields (\<open>req.body\<close>, a dictionary of text values) and
  the file part sent under \<open>image\<close>, if any. A read request is the scheme and the
  \<open>Host\<close> header the client used and, for the single-record route, \<open>req.params.id\<close>.
\<close>

record create_request =
  body :: "string \<rightharpoonup> string"
  image_part :: "upload_file option"

record get_request =
  protocol :: string
  host :: "string option"
  params_id :: string

subsection \<open>\<open>POST /api/schools\<close>\<close>

definition post_schools ::
  "env \<Rightarrow> (string \<rightharpoonup> string) \<Rightarrow> string option \<Rightarrow> server \<Rightarrow> response \<times> server"
where
  "post_schools e req_body file s =
     (let image = (case file of
                     Some filename \<Rightarrow> Some (''/schoolImages/'' @ filename)
                   | None \<Rightarrow> None)
      in case getConnection e s of
           Inl error \<Rightarrow>
             (\<lparr>status = 500,
               payload = Failure ''Failed to add school'' (Some (message error))\<rparr>,
              console_log (ErrorAdding error) s)
         | Inr s1 \<Rightarrow>
             (case execute_insert e (req_body ''name'') (req_body ''address'') (req_body ''city'')
                     (req_body ''state'') (req_body ''contact'') image (req_body ''email_id'') (db s1) of
                Inl error \<Rightarrow>
                  (\<lparr>status = 500,
                    payload = Failure ''Failed to add school'' (Some (message error))\<rparr>,
                   console_log (ErrorAdding error) s1)
              | Inr (insertId, d) \<Rightarrow>
                  (\<lparr>status = 201,
                    payload = SchoolAdded ''School added successfully'' insertId\<rparr>,
                   release (s1\<lparr>db := d\<rparr>))))"

subsection \<open>Rewriting the image path\<close>

text \<open>
  A template literal prints an undefined \<open>Host\<close> header as the text \<open>undefined\<close>. The
  test \<open>row.image ? ... : null\<close> is JavaScript truthiness: \<open>null\<close> and the empty string
  both take the \<open>null\<close> branch.
\<close>

definition baseUrl :: "get_request \<Rightarrow> string" where
  "baseUrl req =
     protocol req @ ''://'' @ (case host req of Some h \<Rightarrow> h | None \<Rightarrow> ''undefined'')"

definition absolute_image :: "string \<Rightarrow> string option \<Rightarrow> string option" where
  "absolute_image base img =
     (case img of
        None \<Rightarrow> None
      | Some p \<Rightarrow> if p = [] then None else Some (base @ p))"

definition with_absolute_image :: "string \<Rightarrow> school_row \<Rightarrow> school_row" where
  "with_absolute_image base row = row\<lparr>image_col := absolute_image base (image_col row)\<rparr>"

subsection \<open>\<open>GET /api/schools\<close>\<close>

definition get_schools :: "env \<Rightarrow> get_request \<Rightarrow> server \<Rightarrow> response \<times> server" where
  "get_schools e req s =
     (case getConnection e s of
        Inl error \<Rightarrow>
          (\<lparr>status = 500,
            payload = Failure ''Failed to fetch schools'' (Some (message error))\<rparr>,
           console_log (ErrorFetchingSchools error) s)
      | Inr s1 \<Rightarrow>
          (case execute_select_all e (db s1) of
             Inl error \<Rightarrow>
               (\<lparr>status = 500,
                 payload = Failure ''Failed to fetch schools'' (Some (message error))\<rparr>,
                console_log (ErrorFetchingSchools error) s1)
           | Inr rows \<Rightarrow>
               (\<lparr>status = 200,
                 payload = SchoolList (map (with_absolute_image (baseUrl req)) rows)\<rparr>,
                release s1)))"

subsection \<open>\<open>GET /api/schools/:id\<close>\<close>

definition get_school_by_id :: "env \<Rightarrow> get_request \<Rightarrow> server \<Rightarrow> response \<times> server" where
  "get_school_by_id e req s =
     (case getConnection e s of
        Inl error \<Rightarrow>
          (\<lparr>status = 500,
            payload = Failure ''Failed to fetch school'' (Some (message error))\<rparr>,
           console_log (ErrorFetchingSchool error) s)
      | Inr s1 \<Rightarrow>
          (case execute_select_by_id e (params_id req) (db s1) of
             Inl error \<Rightarrow>
               (\<lparr>status = 500,
                 payload = Failure ''Failed to fetch school'' (Some (message error))\<rparr>,
                console_log (ErrorFetchingSchool error) s1)
           | Inr rows \<Rightarrow>
               (case rows of
                  [] \<Rightarrow>
                    (\<lparr>status = 404, payload = Failure ''School not found'' None\<rparr>,
                     release s1)
                | school # others \<Rightarrow>
                    (\<lparr>status = 200,
                      payload = SingleSchool (with_absolute_image (baseUrl req) school)\<rparr>,
                     release s1))))"

subsection \<open>Requests the pool does not serve\<close>

text \<open>
  Each handler calls \<open>pool.getConnection()\<close> before anything else can be observed. What
  the client sees of a handler's run from state \<open>s\<close>: the response of the run when the
  pool serves that call, and nothing at all when the call waits for ever.
\<close>

definition answer :: "server \<Rightarrow> response \<times> server \<Rightarrow> (response \<times> server) option" where
  "answer s run = (if served s then Some run else None)"

subsection \<open>Global error handler and the create route as a whole\<close>

definition error_handler :: "js_error \<Rightarrow> response" where
  "error_handler error =
     (case error of
        MulterError c m \<Rightarrow>
          if c = ''LIMIT_FILE_SIZE''
          then \<lparr>status = 400, payload = Failure ''File too large. Maximum size is 5MB.'' None\<rparr>
          else \<lparr>status = 500, payload = Failure m None\<rparr>
      | Error m \<Rightarrow> \<lparr>status = 500, payload = Failure m None\<rparr>)"

text \<open>
  The route runs the upload middleware first. An error passed to \<open>next\<close> skips the route
  handler and lands in the global error handler; otherwise the handler runs with
  \<open>req.file\<close> set by the middleware.
\<close>

definition create_route :: "env \<Rightarrow> create_request \<Rightarrow> server \<Rightarrow> response \<times> server" where
  "create_route e req s =
     (case upload_single e (image_part req) of
        Inl error \<Rightarrow> (error_handler error, s)
      | Inr file \<Rightarrow> post_schools e (body req) file s)"

section \<open>Bootstrap\<close>

text \<open>
  \<open>initializeDatabase\<close> wraps its whole body in \<open>try\<close>/\<open>catch\<close>: it never throws, so the
  promise it returns always resolves and the \<open>then\<close> callback always runs.
\<close>

definition initializeDatabase :: "env \<Rightarrow> server \<Rightarrow> server" where
  "initializeDatabase e s =
     (case getConnection e s of
        Inl error \<Rightarrow> console_log (ErrorInitializing error) s
      | Inr s1 \<Rightarrow>
          (case execute_create_table e (db s1) of
             Inl error \<Rightarrow> console_log (ErrorInitializing error) s1
           | Inr d \<Rightarrow> console_log TableInitialized (release (s1\<lparr>db := d\<rparr>))))"

definition app_listen :: "server \<Rightarrow> server" where
  "app_listen s = console_log ServerRunning (s\<lparr>listening := True\<rparr>)"

definition start :: "env \<Rightarrow> server \<Rightarrow> server" where
  "start e s = app_listen (initializeDatabase e s)"

section \<open>The image directory\<close>

text \<open>
  Directories are absolute, normalised paths, written as their list of segments. The
  process has the directory of \<open>server.js\<close> (\<open>__dirname\<close>) and its working directory
  (\<open>process.cwd()\<close>). \<open>path.join(__dirname, "public/schoolImages")\<close> appends two segments
  to the first; the relative destination \<open>"public/schoolImages/"\<close> that multer's storage
  hands to the file system, and the root of the static route, are resolved against the
  second. A destination given as a function is not created by multer.
\<close>

type_synonym path = "string list"

record process =
  dirname :: path
  cwd :: path

definition imagesDir :: "process \<Rightarrow> path" where
  "imagesDir p = dirname p @ [''public'', ''schoolImages'']"

definition destination :: "process \<Rightarrow> path" where
  "destination p = cwd p @ [''public'', ''schoolImages'']"

definition static_root :: "process \<Rightarrow> path" where
  "static_root p = cwd p @ [''public'', ''schoolImages'']"

definition mkdirSync_recursive :: "path \<Rightarrow> path set \<Rightarrow> path set" where
  "mkdirSync_recursive d dirs = dirs \<union> set (prefixes d)"

definition ensure_images_dir :: "process \<Rightarrow> path set \<Rightarrow> path set" where
  "ensure_images_dir p dirs =
     (if imagesDir p \<in> dirs then dirs else mkdirSync_recursive (imagesDir p) dirs)"

section \<open>The allow-list as the specification words it\<close>

text \<open>
  The specification speaks of membership: the extension and the declared content type
  "belong to the allow-list". Read generously, the lower-cased extension is a dot followed
  by a member, and the content type is a member or \<open>image/\<close> followed by a member.
\<close>

definition allow_list_membership_spec :: "upload_file \<Rightarrow> bool" where
  "allow_list_membership_spec file \<longleftrightarrow>
     toLowerCase (extname (originalname file)) \<in> set (map (\<lambda>t. CHR ''.'' # t) allowedTypes) \<and>
     mimetype file \<in> set (allowedTypes @ map (\<lambda>t. ''image/'' @ t) allowedTypes)"

section \<open>Sample inputs\<close>

definition sample_env :: env where
  "sample_env =
     \<lparr>fault = NoFault, disk_error = None, current_timestamp = 1700000000,
      date_now = 1700000000000, random_int = 123456789,
      to_bigint = (\<lambda>t. if t = ''9876543210'' then Some 9876543210 else None),
      id_equals = (\<lambda>t n. t = digits n)\<rparr>"

definition sample_row :: "nat \<Rightarrow> nat \<Rightarrow> string option \<Rightarrow> school_row" where
  "sample_row i t img =
     \<lparr>id_col = i, name = ''Hill School'', address = ''1 Main Road'', city = ''Pune'',
      state = ''MH'', contact = 9876543210, image_col = img,
      email_id = ''office@hill.example'', created_at = t\<rparr>"

definition sample_server :: "school_row list option \<Rightarrow> server" where
  "sample_server tbl =
     \<lparr>db = \<lparr>schools = tbl, auto_increment = 4\<rparr>, checked_out = 0, console = [],
      listening = False\<rparr>"

definition sample_form :: "string \<rightharpoonup> string" where
  "sample_form =
     map_of [(''name'', ''Hill School''), (''address'', ''1 Main Road''), (''city'', ''Pune''),
             (''state'', ''MH''), (''contact'', ''9876543210''),
             (''email_id'', ''office@hill.example'')]"

definition text_file :: "nat \<Rightarrow> upload_file" where
  "text_file n = \<lparr>originalname = ''notes.txt'', mimetype = ''text/plain'', file_size = n\<rparr>"

definition png_file :: "nat \<Rightarrow> upload_file" where
  "png_file n = \<lparr>originalname = ''gate.png'', mimetype = ''image/png'', file_size = n\<rparr>"

definition sample_get :: "string \<Rightarrow> get_request" where
  "sample_get i = \<lparr>protocol = ''https'', host = Some ''schools.example:3001'', params_id = i\<rparr>"

definition failing_env :: env where
  "failing_env = sample_env\<lparr>fault := ExecuteFails ''read ECONNRESET''\<rparr>"

definition sample_process :: process where
  "sample_process = \<lparr>dirname = [''srv'', ''app''], cwd = [''srv'']\<rparr>"

definition sample_dirs :: "path set" where
  "sample_dirs = {[], [''srv''], [''srv'', ''app'']}"

definition sample_table :: "school_row list" where
  "sample_table =
     [sample_row 1 10 None, sample_row 2 30 (Some ''/schoolImages/school-5-6.png''),
      sample_row 3 20 None]"

definition sample_listing :: "school_row list" where
  "sample_listing =
     [sample_row 2 30 (Some ''https://schools.example:3001/schoolImages/school-5-6.png''),
      sample_row 3 20 None, sample_row 1 10 None]"

definition big_env :: env where
  "big_env =
     sample_env\<lparr>to_bigint :=
       (\<lambda>t. if t = ''9007199254740993'' then Some 9007199254740993 else None)\<rparr>"

definition big_request :: create_request where
  "big_request =
     \<lparr>body = sample_form(''contact'' \<mapsto> ''9007199254740993''), image_part = None\<rparr>"

definition big_row :: school_row where
  "big_row = (sample_row 4 1700000000 None)\<lparr>contact := 9007199254740993\<rparr>"

definition big_server :: server where
  "big_server = snd (create_route big_env big_request (sample_server (Some [])))"

section \<open>Properties of the read routes, as predicates\<close>

text \<open>
  A returned record and a stored row agree on the seven columns that are neither the
  image nor the contact. A returned record carries the contact of a stored row as the
  driver decodes it: the nearest double, which is the stored value itself up to
  magnitude \<open>2^53\<close>. A list of rows runs from the latest creation time to the earliest.
\<close>

definition same_but_image_and_contact :: "school_row \<Rightarrow> school_row \<Rightarrow> bool" where
  "same_but_image_and_contact a b \<longleftrightarrow>
     id_col a = id_col b \<and> name a = name b \<and> address a = address b \<and> city a = city b \<and>
     state a = state b \<and> email_id a = email_id b \<and> created_at a = created_at b"

definition contact_decoded :: "school_row \<Rightarrow> school_row \<Rightarrow> bool" where
  "contact_decoded a b \<longleftrightarrow>
     contact a = js_number (contact b) \<and> (\<bar>contact b\<bar> \<le> 2 ^ 53 \<longrightarrow> contact a = contact b)"

definition latest_first :: "school_row list \<Rightarrow> bool" where
  "latest_first rows = sorted_wrt (\<lambda>a b. created_at b \<le> created_at a) rows"

text \<open>
  The only statement that writes an image is the \<open>INSERT\<close> of the create handler, and
  it writes \<open>null\<close> or \<open>/schoolImages/\<close> followed by the generated file name; there is no
  \<open>UPDATE\<close>. A table written by this program therefore satisfies the following, in
  every state the program reaches from a missing or empty table.
\<close>

definition stored_image_ok :: "string option \<Rightarrow> bool" where
  "stored_image_ok img = (case img of None \<Rightarrow> True | Some p \<Rightarrow> prefix ''/schoolImages/'' p)"

definition images_written_by_create :: "server \<Rightarrow> bool" where
  "images_written_by_create s =
     (case schools (db s) of
        None \<Rightarrow> True
      | Some rows \<Rightarrow> list_all (\<lambda>r. stored_image_ok (image_col r)) rows)"

text \<open>
  The states the program reaches: it starts against a database in which the table is
  missing or empty, and from then on the state changes only through start-up and the
  three routes.
\<close>

inductive reachable :: "server \<Rightarrow> bool" where
  initial: "schools (db s) = None \<or> schools (db s) = Some [] \<Longrightarrow> reachable s"
| started: "reachable s \<Longrightarrow> reachable (start e s)"
| created: "reachable s \<Longrightarrow> reachable (snd (create_route e req s))"
| listed: "reachable s \<Longrightarrow> reachable (snd (get_schools e rd s))"
| fetched: "reachable s \<Longrightarrow> reachable (snd (get_school_by_id e rd s))"

section \<open>Properties of the file filter\<close>

lemma regex_test_sublist: "regex_test alts s \<longleftrightarrow> (\<exists>a\<in>set alts. sublist a s)"
  by (induction s) (auto simp: list_ex_iff sublist_Cons_right)

lemmas filter_defs = fileFilter_def allowedTypes_def extname_def last_component_def
  trim_slashes_def toLowerCase_def toLowerCase_char_def

text \<open>
  C4, as stated, at a concrete file: \<open>notes.pngx\<close> declared as \<open>text/x-gif\<close> is accepted,
  although neither its extension nor its content type belongs to the allow-list.
\<close>

theorem fileFilter_not_membership_counterexample:
  "fileFilter \<lparr>originalname = ''notes.pngx'', mimetype = ''text/x-gif'', file_size = 10\<rparr>
     = Inr True \<and>
   \<not> allow_list_membership_spec
       \<lparr>originalname = ''notes.pngx'', mimetype = ''text/x-gif'', file_size = 10\<rparr>"
  by (simp add: filter_defs allow_list_membership_spec_def)

text \<open>
  C4 (amended): a file is accepted if and only if its lower-cased extension and its
  declared content type each contain a member of the allow-list as a substring; every
  other file is rejected with the error \<open>Only image files are allowed\<close>. In particular
  every file whose extension and content type belong to the allow-list is accepted.
\<close>

theorem fileFilter_accepts_iff_substring:
  "fileFilter file =
     (if (\<exists>a\<in>set allowedTypes. sublist a (toLowerCase (extname (originalname file)))) \<and>
         (\<exists>a\<in>set allowedTypes. sublist a (mimetype file))
      then Inr True else Inl (Error ''Only image files are allowed'')) \<and>
   (allow_list_membership_spec file \<longrightarrow> fileFilter file = Inr True)"
proof -
  have eq: "fileFilter file =
     (if (\<exists>a\<in>set allowedTypes. sublist a (toLowerCase (extname (originalname file)))) \<and>
         (\<exists>a\<in>set allowedTypes. sublist a (mimetype file))
      then Inr True else Inl (Error ''Only image files are allowed''))"
    by (simp add: fileFilter_def regex_test_sublist Let_def)
  have "fileFilter file = Inr True" if a: "allow_list_membership_spec file"
  proof -
    from a obtain t where t: "t \<in> set allowedTypes"
      "toLowerCase (extname (originalname file)) = CHR ''.'' # t"
      by (auto simp: allow_list_membership_spec_def)
    then have e: "\<exists>a\<in>set allowedTypes. sublist a (toLowerCase (extname (originalname file)))"
      by (metis sublist_Cons_right sublist_order.order_refl)
    from a obtain u where u: "u \<in> set allowedTypes"
      "mimetype file = u \<or> mimetype file = ''image/'' @ u"
      by (auto simp: allow_list_membership_spec_def)
    then have "sublist u (mimetype file)"
      by (metis sublist_appendI append_Nil2 sublist_order.order_refl)
    with u e show ?thesis unfolding eq by auto
  qed
  with eq show ?thesis by blast
qed

theorem fileFilter_accepts_iff_substring_witness:
  "allow_list_membership_spec
     \<lparr>originalname = ''Gate.PNG'', mimetype = ''image/png'', file_size = 2048\<rparr> \<and>
   fileFilter \<lparr>originalname = ''Gate.PNG'', mimetype = ''image/png'', file_size = 2048\<rparr>
     = Inr True"
proof -
  have a: "allow_list_membership_spec
     \<lparr>originalname = ''Gate.PNG'', mimetype = ''image/png'', file_size = 2048\<rparr>"
    by code_simp
  with fileFilter_accepts_iff_substring
    [of "\<lparr>originalname = ''Gate.PNG'', mimetype = ''image/png'', file_size = 2048\<rparr>"]
  show ?thesis by blast
qed

section \<open>The create route and rejected uploads\<close>

lemma fileFilter_cases:
  "fileFilter file = Inr True \<or> fileFilter file = Inl (Error ''Only image files are allowed'')"
  by (simp add: fileFilter_def Let_def)

lemma text_file_rejected:
  "fileFilter (text_file n) = Inl (Error ''Only image files are allowed'')"
  by (simp add: text_file_def filter_defs)

lemma png_file_accepted: "fileFilter (png_file n) = Inr True"
  by (simp add: png_file_def filter_defs)

text \<open>
  C1, as stated, at a concrete request: \<open>notes.txt\<close> sent under \<open>image\<close> is rejected by
  the filter, and the status of the response is not in the 400 class.
\<close>

theorem rejected_type_not_400_counterexample:
  "fileFilter (text_file 120) = Inl (Error ''Only image files are allowed'') \<and>
   \<not> (400 \<le> status (fst (create_route sample_env
           \<lparr>body = sample_form, image_part = Some (text_file 120)\<rparr> (sample_server (Some []))))
      \<and> status (fst (create_route sample_env
           \<lparr>body = sample_form, image_part = Some (text_file 120)\<rparr> (sample_server (Some []))))
          < 500)"
  by (simp add: text_file_rejected create_route_def upload_single_def error_handler_def)
     (simp add: text_file_def)

text \<open>
  C1 (amended): for every create request whose uploaded file is rejected by the type
  validation, the response has status 500 with \<open>success: false\<close> and the message
  \<open>Only image files are allowed\<close>, and the server state is unchanged: no row is inserted
  into the schools table.
\<close>

theorem rejected_type_gives_500_and_no_insert:
  assumes "image_part req = Some file" and "originalname file \<noteq> []"
    and "fileFilter file = Inl err"
  shows "create_route e req s =
           (\<lparr>status = 500, payload = Failure ''Only image files are allowed'' None\<rparr>, s)"
proof -
  from assms(3) fileFilter_cases [of "file"]
  have "fileFilter file = Inl (Error ''Only image files are allowed'')" by auto
  with assms(1,2) show ?thesis
    by (simp add: create_route_def upload_single_def error_handler_def)
qed

theorem rejected_type_gives_500_and_no_insert_witness:
  "image_part \<lparr>body = sample_form, image_part = Some (text_file 120)\<rparr> = Some (text_file 120) \<and>
   originalname (text_file 120) \<noteq> [] \<and>
   fileFilter (text_file 120) = Inl (Error ''Only image files are allowed'') \<and>
   create_route sample_env \<lparr>body = sample_form, image_part = Some (text_file 120)\<rparr>
       (sample_server (Some [sample_row 1 10 None])) =
     (\<lparr>status = 500, payload = Failure ''Only image files are allowed'' None\<rparr>,
      sample_server (Some [sample_row 1 10 None]))"
proof -
  have a: "image_part \<lparr>body = sample_form, image_part = Some (text_file 120)\<rparr>
             = Some (text_file 120)" by simp
  have b: "originalname (text_file 120) \<noteq> []" by (simp add: text_file_def)
  note c = text_file_rejected [of 120]
  from rejected_type_gives_500_and_no_insert [OF a b c] a b c show ?thesis by blast
qed

text \<open>
  C9, as stated, at a concrete request: a 6 MiB \<open>notes.txt\<close> exceeds the ceiling, yet the
  filter rejects it before any byte is counted and the status is not 400.
\<close>

theorem oversized_file_not_400_counterexample:
  "file_size (text_file 6291456) > 5 * 1024 * 1024 \<and>
   status (fst (create_route sample_env
           \<lparr>body = sample_form, image_part = Some (text_file 6291456)\<rparr>
           (sample_server (Some []))))
     \<noteq> 400"
  by (simp add: text_file_rejected create_route_def upload_single_def error_handler_def)
     (simp add: text_file_def)

text \<open>
  C9 (amended): for every uploaded file exceeding the 5 MiB ceiling no row is inserted
  (the server state is unchanged); when the file also passes the type validation, the
  upload is rejected at the transport layer and the error handler responds with status
  400 and the message \<open>File too large. Maximum size is 5MB.\<close>
\<close>

theorem oversized_image_gives_400_and_no_insert:
  assumes "image_part req = Some file" and "originalname file \<noteq> []"
    and "file_size file > 5 * 1024 * 1024"
  shows "snd (create_route e req s) = s \<and>
         (fileFilter file = Inr True \<longrightarrow>
            create_route e req s =
              (\<lparr>status = 400,
                payload = Failure ''File too large. Maximum size is 5MB.'' None\<rparr>, s))"
  using assms fileFilter_cases [of "file"]
  by (auto simp: create_route_def upload_single_def error_handler_def limits_fileSize_def)

theorem oversized_image_gives_400_and_no_insert_witness:
  "image_part \<lparr>body = sample_form, image_part = Some (png_file 6291456)\<rparr>
     = Some (png_file 6291456) \<and>
   originalname (png_file 6291456) \<noteq> [] \<and>
   file_size (png_file 6291456) > 5 * 1024 * 1024 \<and>
   fileFilter (png_file 6291456) = Inr True \<and>
   create_route sample_env \<lparr>body = sample_form, image_part = Some (png_file 6291456)\<rparr>
       (sample_server (Some [])) =
     (\<lparr>status = 400, payload = Failure ''File too large. Maximum size is 5MB.'' None\<rparr>,
      sample_server (Some []))"
proof -
  have a: "image_part \<lparr>body = sample_form, image_part = Some (png_file 6291456)\<rparr>
             = Some (png_file 6291456)" by simp
  have b: "originalname (png_file 6291456) \<noteq> []" by (simp add: png_file_def)
  have c: "file_size (png_file 6291456) > 5 * 1024 * 1024" by (simp add: png_file_def)
  note d = png_file_accepted [of 6291456]
  from oversized_image_gives_400_and_no_insert
         [OF a b c, of sample_env "sample_server (Some [])"] a b c d
  show ?thesis by blast
qed

section \<open>The pool: acquisition and release\<close>

lemmas handler_defs = post_schools_def get_schools_def get_school_by_id_def getConnection_def
  release_def console_log_def execute_insert_def execute_select_all_def
  execute_select_by_id_def

text \<open>
  How many connections a handler leaves checked out: none more than before when the
  connection could not be acquired or the statement succeeded, one more when the
  statement failed, since \<open>connection.release()\<close> sits inside the \<open>try\<close> block after the
  statement and the \<open>catch\<close> block does not release.
\<close>

lemma post_schools_pool:
  "checked_out (snd (post_schools e b f s)) =
     (case getConnection e s of
        Inl err \<Rightarrow> checked_out s
      | Inr s1 \<Rightarrow>
          (case execute_insert e (b ''name'') (b ''address'') (b ''city'') (b ''state'')
                  (b ''contact'') (map_option (\<lambda>n. ''/schoolImages/'' @ n) f) (b ''email_id'')
                  (db s1) of
             Inl err \<Rightarrow> checked_out s + 1
           | Inr r \<Rightarrow> checked_out s))"
  by (cases f) (auto simp: post_schools_def getConnection_def release_def console_log_def
      split: db_fault.splits sum.splits)

lemma get_schools_pool:
  "checked_out (snd (get_schools e req s)) =
     (case getConnection e s of
        Inl err \<Rightarrow> checked_out s
      | Inr s1 \<Rightarrow>
          (case execute_select_all e (db s1) of
             Inl err \<Rightarrow> checked_out s + 1
           | Inr r \<Rightarrow> checked_out s))"
  by (auto simp: get_schools_def getConnection_def release_def console_log_def
      split: db_fault.splits sum.splits)

lemma get_school_by_id_pool:
  "checked_out (snd (get_school_by_id e req s)) =
     (case getConnection e s of
        Inl err \<Rightarrow> checked_out s
      | Inr s1 \<Rightarrow>
          (case execute_select_by_id e (params_id req) (db s1) of
             Inl err \<Rightarrow> checked_out s + 1
           | Inr r \<Rightarrow> checked_out s))"
  by (auto simp: get_school_by_id_def getConnection_def release_def console_log_def
      split: db_fault.splits sum.splits list.splits)

text \<open>
  C2 asks for the connection to be released on every exit path. The three handlers at
  requests whose statement fails: a create request without the \<open>name\<close> field, and the two
  read requests while the table is missing. Each answers 500 and leaves the connection
  it acquired checked out.
\<close>

theorem connection_not_released_when_statement_fails:
  "checked_out (sample_server (Some [])) = 0 \<and>
   status (fst (post_schools sample_env (sample_form(''name'' := None)) None
                  (sample_server (Some [])))) = 500 \<and>
   checked_out (snd (post_schools sample_env (sample_form(''name'' := None)) None
                  (sample_server (Some [])))) = 1 \<and>
   status (fst (get_schools sample_env (sample_get ''7'') (sample_server None))) = 500 \<and>
   checked_out (snd (get_schools sample_env (sample_get ''7'') (sample_server None))) = 1 \<and>
   status (fst (get_school_by_id sample_env (sample_get ''7'') (sample_server None))) = 500 \<and>
   checked_out (snd (get_school_by_id sample_env (sample_get ''7'') (sample_server None))) = 1"
  by (simp add: handler_defs sample_env_def sample_server_def sample_form_def sample_get_def)

section \<open>Bootstrap order\<close>

text \<open>
  C3, as stated, at a concrete start: the \<open>CREATE TABLE\<close> step throws, and the process
  reaches the listen step all the same.
\<close>

theorem listens_after_failed_init_counterexample:
  "execute_create_table failing_env (db (sample_server None))
     = Inl (Error ''read ECONNRESET'') \<and>
   listening (start failing_env (sample_server None))"
  by (simp add: failing_env_def sample_env_def sample_server_def execute_create_table_def
      start_def app_listen_def initializeDatabase_def getConnection_def console_log_def)

text \<open>
  C3 (amended): listening begins only after schema initialization has settled, and it
  begins whether the initialization succeeded or failed. \<open>initializeDatabase\<close> itself
  does not listen; it logs exactly one entry, success or the error, and the listen step
  follows that entry. When the \<open>CREATE TABLE\<close> step throws, the error is logged and the
  process still reaches the listen step.
\<close>

theorem start_listens_once_init_has_settled:
  "listening (start e s) \<and>
   listening (initializeDatabase e s) = listening s \<and>
   (\<exists>l. console (start e s) = console s @ [l, ServerRunning] \<and>
        (l = TableInitialized \<or> (\<exists>err. l = ErrorInitializing err))) \<and>
   (\<forall>s1 err. getConnection e s = Inr s1 \<longrightarrow> execute_create_table e (db s1) = Inl err \<longrightarrow>
      console (start e s) = console s @ [ErrorInitializing err, ServerRunning])"
  by (auto simp: start_def app_listen_def initializeDatabase_def getConnection_def
      console_log_def release_def split: db_fault.splits sum.splits)

theorem start_listens_once_init_has_settled_witness:
  "getConnection failing_env (sample_server None)
     = Inr ((sample_server None)\<lparr>checked_out := 1\<rparr>) \<and>
   execute_create_table failing_env (db ((sample_server None)\<lparr>checked_out := 1\<rparr>))
     = Inl (Error ''read ECONNRESET'') \<and>
   console (start failing_env (sample_server None))
     = console (sample_server None)
         @ [ErrorInitializing (Error ''read ECONNRESET''), ServerRunning]"
proof -
  have a: "getConnection failing_env (sample_server None)
             = Inr ((sample_server None)\<lparr>checked_out := 1\<rparr>)"
    by (simp add: failing_env_def sample_env_def sample_server_def getConnection_def)
  have b: "execute_create_table failing_env (db ((sample_server None)\<lparr>checked_out := 1\<rparr>))
             = Inl (Error ''read ECONNRESET'')"
    by (simp add: failing_env_def sample_env_def sample_server_def execute_create_table_def)
  from start_listens_once_init_has_settled [of failing_env "sample_server None"] a b
  show ?thesis by blast
qed

section \<open>The image directory at start-up\<close>

lemma imagesDir_created: "imagesDir p \<in> ensure_images_dir p dirs"
  by (simp add: ensure_images_dir_def mkdirSync_recursive_def)

lemma destination_is_imagesDir_iff: "destination p = imagesDir p \<longleftrightarrow> cwd p = dirname p"
  by (simp add: imagesDir_def destination_def)

lemma destination_created_when_started_in_dirname:
  "cwd p = dirname p \<Longrightarrow> destination p \<in> ensure_images_dir p dirs"
  using imagesDir_created [of p dirs] by (simp add: imagesDir_def destination_def)

text \<open>
  C5 asks for the directory created at start-up to be the upload destination. A process
  started from \<open>/srv\<close> with \<open>server.js\<close> in \<open>/srv/app\<close>: the start-up check creates
  \<open>/srv/app/public/schoolImages\<close>, while uploads go to, and the static route reads from,
  \<open>/srv/public/schoolImages\<close>, which does not exist afterwards.
\<close>

theorem created_directory_is_not_the_destination:
  "imagesDir sample_process = [''srv'', ''app'', ''public'', ''schoolImages''] \<and>
   destination sample_process = [''srv'', ''public'', ''schoolImages''] \<and>
   static_root sample_process = destination sample_process \<and>
   imagesDir sample_process \<in> ensure_images_dir sample_process sample_dirs \<and>
   destination sample_process \<notin> ensure_images_dir sample_process sample_dirs"
  by (simp add: sample_process_def sample_dirs_def imagesDir_def destination_def static_root_def
      ensure_images_dir_def mkdirSync_recursive_def)

section \<open>The read routes\<close>

subsection \<open>The statement's rows\<close>

lemma mset_insert_desc: "mset (insert_desc r xs) = add_mset r (mset xs)"
  by (induction xs) auto

lemma set_insert_desc: "set (insert_desc r xs) = insert r (set xs)"
  by (induction xs) auto

lemma latest_first_insert_desc: "latest_first xs \<Longrightarrow> latest_first (insert_desc r xs)"
  by (induction xs) (auto simp: latest_first_def set_insert_desc)

lemma mset_order_by: "mset (order_by_created_at_desc rows) = mset rows"
  by (induction rows) (auto simp: mset_insert_desc)

lemma latest_first_order_by: "latest_first (order_by_created_at_desc rows)"
proof (induction rows)
  case Nil
  show ?case by (simp add: latest_first_def)
next
  case (Cons r rows)
  then show ?case by (simp add: latest_first_insert_desc)
qed

subsection \<open>Decoding the contact\<close>

lemma ulp_small: "a < 2 ^ 53 \<Longrightarrow> ulp a = 1"
  by (subst ulp.simps) simp

lemma ulp_2_53: "ulp 9007199254740992 = 2"
  by (subst ulp.simps) (simp add: ulp_small)

lemma round_half_even_1: "round_half_even (Suc 0) a = a"
  by (simp add: round_half_even_def)

lemma js_number_exact:
  assumes "\<bar>k\<bar> \<le> 2 ^ 53"
  shows "js_number k = k"
proof (cases "nat \<bar>k\<bar> < 2 ^ 53")
  case True
  then show ?thesis by (simp add: js_number_def ulp_small round_half_even_1 Let_def)
next
  case False
  with assms have a: "nat \<bar>k\<bar> = 2 ^ 53"
    by (simp add: nat_le_iff not_less le_antisym nat_eq_iff)
  have r: "round_half_even 2 9007199254740992 = 9007199254740992"
    by (simp add: round_half_even_def)
  show ?thesis
    using a by (auto simp: js_number_def ulp_2_53 r Let_def abs_if split: if_splits)
qed

lemma js_number_above: "js_number 9007199254740993 = 9007199254740992"
proof -
  have u: "ulp 9007199254740993 = 2"
    by (subst ulp.simps) (simp add: ulp_small)
  show ?thesis by (simp add: js_number_def u round_half_even_def Let_def)
qed

lemma contact_decoded_decode_row: "contact_decoded (with_absolute_image base (decode_row r)) r"
  by (simp add: contact_decoded_def with_absolute_image_def decode_row_def js_number_exact)

lemma same_but_image_and_contact_decode_row:
  "same_but_image_and_contact (with_absolute_image base (decode_row r)) r"
  by (simp add: same_but_image_and_contact_def with_absolute_image_def decode_row_def)

subsection \<open>What a successful read returns\<close>

lemma get_schools_payload:
  assumes "payload (fst (get_schools e req s)) = SchoolList out"
  shows "\<exists>rows. schools (db s) = Some rows \<and>
           out = map (\<lambda>r. with_absolute_image (baseUrl req) (decode_row r))
                   (order_by_created_at_desc rows)"
  using assms
  by (auto simp: get_schools_def getConnection_def execute_select_all_def
      split: db_fault.splits sum.splits option.splits)

lemma get_school_by_id_payload:
  assumes "payload (fst (get_school_by_id e req s)) = SingleSchool one"
  shows "\<exists>rows r. schools (db s) = Some rows \<and> r \<in> set rows \<and>
           id_equals e (params_id req) (id_col r) \<and>
           one = with_absolute_image (baseUrl req) (decode_row r)"
proof -
  from assms obtain rows x xs where t: "schools (db s) = Some rows"
    and f: "filter (\<lambda>r. id_equals e (params_id req) (id_col r)) rows = x # xs"
    and o: "one = with_absolute_image (baseUrl req) (decode_row x)"
    by (auto simp: get_school_by_id_def getConnection_def execute_select_by_id_def
        split: db_fault.splits sum.splits option.splits list.splits)
  from f have "x \<in> set (filter (\<lambda>r. id_equals e (params_id req) (id_col r)) rows)"
    by simp
  then have "x \<in> set rows \<and> id_equals e (params_id req) (id_col x)" by simp
  with t o show ?thesis by blast
qed

lemma answer_unserved: "\<not> served s \<Longrightarrow> answer s run = None"
  by (simp add: answer_def)

lemma exhausted_pool_unanswered:
  "answer ((sample_server (Some sample_table))\<lparr>checked_out := 10\<rparr>)
     (get_schools sample_env (sample_get [])
        ((sample_server (Some sample_table))\<lparr>checked_out := 10\<rparr>)) = None"
  by (simp add: answer_def served_def connectionLimit_def)

text \<open>
  C7: while the pool serves the request, the database answers and the table exists, List
  responds with status 200 and a list that is ordered by creation time, most recent
  first, and holds every row of the schools table exactly once: the records returned
  match, one to one, a rearrangement of the table's rows in \<open>id\<close>, \<open>name\<close>, \<open>address\<close>,
  \<open>city\<close>, \<open>state\<close>, \<open>email_id\<close> and \<open>created_at\<close>.
\<close>

theorem list_returns_all_rows_latest_first:
  assumes "served s" and "fault e = NoFault" and "schools (db s) = Some rows"
  shows "\<exists>out stored s'.
           answer s (get_schools e req s)
             = Some (\<lparr>status = 200, payload = SchoolList out\<rparr>, s') \<and>
           mset stored = mset rows \<and>
           list_all2 same_but_image_and_contact out stored \<and>
           latest_first out"
proof -
  let ?stored = "order_by_created_at_desc rows"
  let ?out = "map (\<lambda>r. with_absolute_image (baseUrl req) (decode_row r)) ?stored"
  have "fst (get_schools e req s) = \<lparr>status = 200, payload = SchoolList ?out\<rparr>"
    using assms(2,3) by (simp add: get_schools_def getConnection_def execute_select_all_def)
  then have "answer s (get_schools e req s)
               = Some (\<lparr>status = 200, payload = SchoolList ?out\<rparr>, snd (get_schools e req s))"
    using assms(1) by (simp add: answer_def prod_eq_iff)
  moreover have "mset ?stored = mset rows"
    by (simp add: mset_order_by)
  moreover have "list_all2 same_but_image_and_contact ?out ?stored"
    by (simp add: list_all2_map1 list_all2_same same_but_image_and_contact_decode_row)
  moreover have "latest_first ?out"
    using latest_first_order_by [of rows]
    by (simp add: latest_first_def sorted_wrt_map with_absolute_image_def decode_row_def)
  ultimately show ?thesis by blast
qed

text \<open>
  C8: when the statement of GetById returns zero rows, the response is the not-found
  signal: status 404 with \<open>success: false\<close> and the message \<open>School not found\<close>, which is
  not the server-error status 500.
\<close>

theorem get_by_id_zero_rows_gives_404:
  assumes "getConnection e s = Inr s1"
    and "execute_select_by_id e (params_id req) (db s1) = Inr []"
  shows "fst (get_school_by_id e req s)
           = \<lparr>status = 404, payload = Failure ''School not found'' None\<rparr> \<and>
         \<not> success (payload (fst (get_school_by_id e req s))) \<and>
         status (fst (get_school_by_id e req s)) \<noteq> 500"
  using assms by (simp add: get_school_by_id_def)

subsection \<open>Stored images\<close>

lemma images_written_by_create_initially:
  "schools (db s) = None \<or> schools (db s) = Some [] \<Longrightarrow> images_written_by_create s"
  by (auto simp: images_written_by_create_def)

lemma images_written_by_create_post_schools:
  assumes "images_written_by_create s"
  shows "images_written_by_create (snd (post_schools e b f s))"
  using assms
  by (cases f)
     (auto simp: images_written_by_create_def stored_image_ok_def post_schools_def
        getConnection_def release_def console_log_def execute_insert_def
        split: db_fault.splits sum.splits option.splits)

lemma images_written_by_create_create_route:
  assumes "images_written_by_create s"
  shows "images_written_by_create (snd (create_route e req s))"
  using assms images_written_by_create_post_schools
  by (auto simp: create_route_def split: sum.splits)

lemma images_written_by_create_start:
  assumes "images_written_by_create s"
  shows "images_written_by_create (start e s)"
  using assms
  by (auto simp: images_written_by_create_def start_def app_listen_def initializeDatabase_def
      getConnection_def release_def console_log_def execute_create_table_def
      split: db_fault.splits sum.splits option.splits)

lemma db_get_schools: "db (snd (get_schools e req s)) = db s"
  by (auto simp: get_schools_def getConnection_def release_def console_log_def
      split: db_fault.splits sum.splits)

lemma db_get_school_by_id: "db (snd (get_school_by_id e req s)) = db s"
  by (auto simp: get_school_by_id_def getConnection_def release_def console_log_def
      split: db_fault.splits sum.splits list.splits)

lemma images_written_by_create_reads:
  assumes "images_written_by_create s"
  shows "images_written_by_create (snd (get_schools e req s))"
    and "images_written_by_create (snd (get_school_by_id e req s))"
  using assms by (simp_all add: images_written_by_create_def db_get_schools db_get_school_by_id)

lemma reachable_images_written_by_create: "reachable s \<Longrightarrow> images_written_by_create s"
proof (induction rule: reachable.induct)
  case (initial s)
  then show ?case by (rule images_written_by_create_initially)
next
  case (started s e)
  then show ?case by (simp add: images_written_by_create_start)
next
  case (created s e req)
  then show ?case by (simp add: images_written_by_create_create_route)
next
  case (listed s e rd)
  then show ?case by (simp add: images_written_by_create_reads)
next
  case (fetched s e rd)
  then show ?case by (simp add: images_written_by_create_reads)
qed

lemma big_server_reachable: "reachable big_server"
  unfolding big_server_def
  by (rule reachable.created, rule reachable.initial) (simp add: sample_server_def)

lemma absolute_image_of_stored:
  assumes "host req = Some h" and "stored_image_ok img"
  shows "absolute_image (baseUrl req) img =
           (case img of None \<Rightarrow> None | Some p \<Rightarrow> Some (protocol req @ ''://'' @ h @ p))"
  using assms
  by (cases img) (auto simp: absolute_image_def baseUrl_def stored_image_ok_def)

text \<open>
  C6: for every record returned by List and by GetById, from a table whose images were
  written by the create handler, a non-null stored image path is rewritten to the
  absolute URL formed by prefixing the request's scheme, \<open>://\<close> and host to the stored
  path, and a null stored image is returned as null. The record returned for a stored
  row is the one with that row's \<open>id\<close>.
\<close>

theorem image_rewritten_to_absolute_url:
  assumes "host req = Some h" and "images_written_by_create s"
  shows "(payload (fst (get_schools e req s)) = SchoolList out \<longrightarrow>
            (\<exists>rows stored. schools (db s) = Some rows \<and> mset stored = mset rows \<and>
               list_all2 (\<lambda>ret row. id_col ret = id_col row \<and>
                            image_col ret =
                              (case image_col row of
                                 None \<Rightarrow> None
                               | Some p \<Rightarrow> Some (protocol req @ ''://'' @ h @ p)))
                 out stored)) \<and>
         (payload (fst (get_school_by_id e req s)) = SingleSchool one \<longrightarrow>
            (\<exists>rows row. schools (db s) = Some rows \<and> row \<in> set rows \<and>
               id_equals e (params_id req) (id_col row) \<and> id_col one = id_col row \<and>
               image_col one =
                 (case image_col row of
                    None \<Rightarrow> None
                  | Some p \<Rightarrow> Some (protocol req @ ''://'' @ h @ p))))"
proof (intro conjI impI)
  assume "payload (fst (get_schools e req s)) = SchoolList out"
  then obtain rows where r: "schools (db s) = Some rows"
    "out = map (\<lambda>r. with_absolute_image (baseUrl req) (decode_row r))
             (order_by_created_at_desc rows)"
    using get_schools_payload by blast
  let ?stored = "order_by_created_at_desc rows"
  have m: "mset ?stored = mset rows" by (simp add: mset_order_by)
  then have "set ?stored = set rows" by (rule mset_eq_setD)
  with assms(2) r(1) have ok: "\<forall>x\<in>set ?stored. stored_image_ok (image_col x)"
    by (simp add: images_written_by_create_def list_all_iff)
  have "list_all2 (\<lambda>ret row. id_col ret = id_col row \<and>
                            image_col ret =
                              (case image_col row of
                                 None \<Rightarrow> None
                               | Some p \<Rightarrow> Some (protocol req @ ''://'' @ h @ p)))
                 out ?stored"
    unfolding r(2) list_all2_map1
    by (rule list_all2_same [THEN iffD2])
       (use ok in \<open>simp add: with_absolute_image_def decode_row_def
          absolute_image_of_stored [OF assms(1)]\<close>)
  with r(1) m show "\<exists>rows stored. schools (db s) = Some rows \<and> mset stored = mset rows \<and>
               list_all2 (\<lambda>ret row. id_col ret = id_col row \<and>
                            image_col ret =
                              (case image_col row of
                                 None \<Rightarrow> None
                               | Some p \<Rightarrow> Some (protocol req @ ''://'' @ h @ p)))
                 out stored"
    by blast
next
  assume "payload (fst (get_school_by_id e req s)) = SingleSchool one"
  then obtain rows row where r: "schools (db s) = Some rows" "row \<in> set rows"
    "id_equals e (params_id req) (id_col row)"
    "one = with_absolute_image (baseUrl req) (decode_row row)"
    using get_school_by_id_payload by blast
  from assms(2) r(1,2) have ok: "stored_image_ok (image_col row)"
    by (simp add: images_written_by_create_def list_all_iff)
  have "id_col one = id_col row \<and>
        image_col one =
          (case image_col row of
             None \<Rightarrow> None
           | Some p \<Rightarrow> Some (protocol req @ ''://'' @ h @ p))"
    by (simp add: r(4) with_absolute_image_def decode_row_def
        absolute_image_of_stored [OF assms(1) ok])
  with r(1,2,3) show "\<exists>rows row. schools (db s) = Some rows \<and> row \<in> set rows \<and>
               id_equals e (params_id req) (id_col row) \<and> id_col one = id_col row \<and>
               image_col one =
                 (case image_col row of
                    None \<Rightarrow> None
                  | Some p \<Rightarrow> Some (protocol req @ ''://'' @ h @ p))"
    by blast
qed

text \<open>
  C10, as stated, at a concrete table: a school created with contact
  \<open>9007199254740993\<close> is stored with that contact, and List returns it with contact
  \<open>9007199254740992\<close>.
\<close>

theorem contact_not_returned_as_stored_counterexample:
  "schools (db big_server) = Some [big_row] \<and>
   contact big_row = 9007199254740993 \<and>
   payload (fst (get_schools big_env (sample_get ''4'') big_server))
     = SchoolList [big_row\<lparr>contact := 9007199254740992\<rparr>]"
  by (simp add: big_server_def big_env_def big_request_def big_row_def sample_form_def
      sample_env_def sample_server_def sample_row_def sample_get_def create_route_def
      upload_single_def handler_defs decode_row_def js_number_above with_absolute_image_def
      absolute_image_def)

text \<open>
  C10 (amended): every record returned by List and by GetById agrees with the row
  stored in the table on \<open>id\<close>, \<open>name\<close>, \<open>address\<close>, \<open>city\<close>, \<open>state\<close>, \<open>email_id\<close> and
  \<open>created_at\<close>; its \<open>contact\<close> is the stored contact as the driver decodes it, the
  nearest double, which is the stored value itself whenever its magnitude is at most
  \<open>2^53\<close>. The rewriting step touches the image only.
\<close>

theorem rewriting_changes_only_image:
  "(payload (fst (get_schools e req s)) = SchoolList out \<longrightarrow>
      (\<exists>rows stored. schools (db s) = Some rows \<and> mset stored = mset rows \<and>
         list_all2 (\<lambda>ret row. same_but_image_and_contact ret row \<and> contact_decoded ret row)
           out stored)) \<and>
   (payload (fst (get_school_by_id e req s)) = SingleSchool one \<longrightarrow>
      (\<exists>rows row. schools (db s) = Some rows \<and> row \<in> set rows \<and>
         id_equals e (params_id req) (id_col row) \<and>
         same_but_image_and_contact one row \<and> contact_decoded one row))"
proof (intro conjI impI)
  assume "payload (fst (get_schools e req s)) = SchoolList out"
  then obtain rows where r: "schools (db s) = Some rows"
    "out = map (\<lambda>r. with_absolute_image (baseUrl req) (decode_row r))
             (order_by_created_at_desc rows)"
    using get_schools_payload by blast
  let ?stored = "order_by_created_at_desc rows"
  have m: "mset ?stored = mset rows" by (simp add: mset_order_by)
  have "list_all2 (\<lambda>ret row. same_but_image_and_contact ret row \<and> contact_decoded ret row)
          out ?stored"
    unfolding r(2)
    by (simp add: list_all2_map1 list_all2_same same_but_image_and_contact_decode_row
        contact_decoded_decode_row)
  with r(1) m show "\<exists>rows stored. schools (db s) = Some rows \<and> mset stored = mset rows \<and>
         list_all2 (\<lambda>ret row. same_but_image_and_contact ret row \<and> contact_decoded ret row)
           out stored"
    by blast
next
  assume "payload (fst (get_school_by_id e req s)) = SingleSchool one"
  then obtain rows row where r: "schools (db s) = Some rows" "row \<in> set rows"
    "id_equals e (params_id req) (id_col row)"
    "one = with_absolute_image (baseUrl req) (decode_row row)"
    using get_school_by_id_payload by blast
  then show "\<exists>rows row. schools (db s) = Some rows \<and> row \<in> set rows \<and>
         id_equals e (params_id req) (id_col row) \<and>
         same_but_image_and_contact one row \<and> contact_decoded one row"
    using same_but_image_and_contact_decode_row contact_decoded_decode_row by blast
qed

subsection \<open>The read routes on the sample table\<close>

lemmas sample_defs = sample_env_def sample_server_def sample_get_def sample_table_def
  sample_listing_def sample_row_def

lemma js_number_sample: "js_number 9876543210 = 9876543210"
  by (rule js_number_exact) simp

lemma sample_list_response:
  "fst (get_schools sample_env (sample_get i) (sample_server (Some sample_table)))
     = \<lparr>status = 200, payload = SchoolList sample_listing\<rparr>"
  by (simp add: sample_defs handler_defs with_absolute_image_def absolute_image_def
      baseUrl_def decode_row_def js_number_sample)

lemma digits_sample: "digits (Suc 0) = ''1''" "digits 2 = ''2''" "digits 3 = ''3''"
  by code_simp+

lemma sample_single_response:
  "fst (get_school_by_id sample_env (sample_get ''2'') (sample_server (Some sample_table)))
     = \<lparr>status = 200, payload = SingleSchool (sample_listing ! 0)\<rparr>"
  by (simp add: sample_defs handler_defs with_absolute_image_def absolute_image_def
      baseUrl_def digits_sample decode_row_def js_number_sample)

lemma sample_connection:
  "getConnection sample_env (sample_server t) = Inr ((sample_server t)\<lparr>checked_out := 1\<rparr>)"
  by (simp add: sample_env_def sample_server_def getConnection_def)

lemma sample_no_match:
  "execute_select_by_id sample_env (params_id (sample_get ''9''))
     (db ((sample_server (Some sample_table))\<lparr>checked_out := 1\<rparr>)) = Inr []"
  by (simp add: sample_defs execute_select_by_id_def digits_sample)

lemma sample_images_written_by_create:
  "images_written_by_create (sample_server (Some sample_table))"
  by (simp add: images_written_by_create_def stored_image_ok_def sample_defs)

theorem list_returns_all_rows_latest_first_witness:
  "served (sample_server (Some sample_table)) \<and>
   fault sample_env = NoFault \<and>
   schools (db (sample_server (Some sample_table))) = Some sample_table \<and>
   (\<exists>out stored s'.
      answer (sample_server (Some sample_table))
          (get_schools sample_env (sample_get []) (sample_server (Some sample_table)))
        = Some (\<lparr>status = 200, payload = SchoolList out\<rparr>, s') \<and>
      mset stored = mset sample_table \<and>
      list_all2 same_but_image_and_contact out stored \<and>
      latest_first out)"
proof -
  have a: "served (sample_server (Some sample_table))"
    by (simp add: served_def connectionLimit_def sample_server_def)
  have b: "fault sample_env = NoFault" by (simp add: sample_env_def)
  have c: "schools (db (sample_server (Some sample_table))) = Some sample_table"
    by (simp add: sample_server_def)
  from list_returns_all_rows_latest_first [OF a b c] a b c show ?thesis by blast
qed

theorem get_by_id_zero_rows_gives_404_witness:
  "getConnection sample_env (sample_server (Some sample_table))
     = Inr ((sample_server (Some sample_table))\<lparr>checked_out := 1\<rparr>) \<and>
   execute_select_by_id sample_env (params_id (sample_get ''9''))
     (db ((sample_server (Some sample_table))\<lparr>checked_out := 1\<rparr>)) = Inr [] \<and>
   fst (get_school_by_id sample_env (sample_get ''9'') (sample_server (Some sample_table)))
     = \<lparr>status = 404, payload = Failure ''School not found'' None\<rparr>"
  using get_by_id_zero_rows_gives_404 [OF sample_connection sample_no_match]
    sample_connection sample_no_match
  by blast

theorem image_rewritten_to_absolute_url_witness:
  "host (sample_get ''2'') = Some ''schools.example:3001'' \<and>
   images_written_by_create (sample_server (Some sample_table)) \<and>
   payload (fst (get_schools sample_env (sample_get ''2'') (sample_server (Some sample_table))))
     = SchoolList sample_listing \<and>
   payload (fst (get_school_by_id sample_env (sample_get ''2'')
                   (sample_server (Some sample_table))))
     = SingleSchool (sample_listing ! 0) \<and>
   (\<exists>rows stored.
      schools (db (sample_server (Some sample_table))) = Some rows \<and>
      mset stored = mset rows \<and>
      list_all2 (\<lambda>ret row. id_col ret = id_col row \<and>
                   image_col ret =
                     (case image_col row of
                        None \<Rightarrow> None
                      | Some p \<Rightarrow> Some (protocol (sample_get ''2'') @ ''://'' @
                                        ''schools.example:3001'' @ p)))
        sample_listing stored)"
proof -
  have a: "host (sample_get ''2'') = Some ''schools.example:3001''"
    by (simp add: sample_get_def)
  note i = sample_images_written_by_create
  have b: "payload (fst (get_schools sample_env (sample_get ''2'')
             (sample_server (Some sample_table)))) = SchoolList sample_listing"
    by (simp add: sample_list_response)
  have c: "payload (fst (get_school_by_id sample_env (sample_get ''2'')
             (sample_server (Some sample_table)))) = SingleSchool (sample_listing ! 0)"
    by (simp add: sample_single_response)
  from image_rewritten_to_absolute_url
         [OF a i, of sample_env sample_listing "sample_listing ! 0"] a i b c
  show ?thesis by blast
qed

theorem rewriting_changes_only_image_witness:
  "payload (fst (get_schools sample_env (sample_get ''2'') (sample_server (Some sample_table))))
     = SchoolList sample_listing \<and>
   payload (fst (get_school_by_id sample_env (sample_get ''2'')
                   (sample_server (Some sample_table))))
     = SingleSchool (sample_listing ! 0) \<and>
   (\<exists>rows stored.
      schools (db (sample_server (Some sample_table))) = Some rows \<and>
      mset stored = mset rows \<and>
      list_all2 (\<lambda>ret row. same_but_image_and_contact ret row \<and> contact_decoded ret row)
        sample_listing stored) \<and>
   (\<exists>rows row.
      schools (db (sample_server (Some sample_table))) = Some rows \<and> row \<in> set rows \<and>
      id_equals sample_env (params_id (sample_get ''2'')) (id_col row) \<and>
      same_but_image_and_contact (sample_listing ! 0) row \<and>
      contact_decoded (sample_listing ! 0) row)"
proof -
  have b: "payload (fst (get_schools sample_env (sample_get ''2'')
             (sample_server (Some sample_table)))) = SchoolList sample_listing"
    by (simp add: sample_list_response)
  have c: "payload (fst (get_school_by_id sample_env (sample_get ''2'')
             (sample_server (Some sample_table)))) = SingleSchool (sample_listing ! 0)"
    by (simp add: sample_single_response)
  from rewriting_changes_only_image
         [of sample_env "sample_get ''2''" "sample_server (Some sample_table)" sample_listing
             "sample_listing ! 0"] b c
  show ?thesis by blast
qed

end
